theory Spec2Isabelle
  imports Complex_Main
begin

section \<open>JavaScript values used by the serial protocol layer\<close>

text \<open>
  The renderer code (\<^verbatim>\<open>src/public/preload.js\<close> from line 46 on, and
  \<^verbatim>\<open>src/components/mini-tfd-control.tsx\<close>) is TypeScript running on React; the
  transport handlers (\<^verbatim>\<open>src/public/electron.js\<close>) are JavaScript.

  A JavaScript string is modelled as a \<^typ>\<open>string\<close>: each \<^typ>\<open>char\<close> is one code unit
  below 256 (the wire protocol is ASCII). A JavaScript number is a \<open>jsnum\<close>: \<open>NaN\<close>,
  the two infinities, or a finite value kept as the exact rational it denotes; the binary
  rounding of IEEE doubles, overflow to infinity and the sign of zero are not modelled.
\<close>

datatype jsnum = NaN | PInf | NInf | Fin rat

definition isNaN :: "jsnum \<Rightarrow> bool" where
  "isNaN x = (x = NaN)"

fun js_neg :: "jsnum \<Rightarrow> jsnum" where
  "js_neg NaN = NaN"
| "js_neg PInf = NInf"
| "js_neg NInf = PInf"
| "js_neg (Fin q) = Fin (- q)"

fun js_sign :: "jsnum \<Rightarrow> int" where
  "js_sign NaN = 0"
| "js_sign PInf = 1"
| "js_sign NInf = - 1"
| "js_sign (Fin q) = (if q < 0 then - 1 else if q = 0 then 0 else 1)"

definition js_inf :: "int \<Rightarrow> jsnum" where
  "js_inf sg = (if sg < 0 then NInf else PInf)"

text \<open>\<^verbatim>\<open>a * b\<close>: infinity times zero is \<open>NaN\<close>.\<close>

fun js_mul :: "jsnum \<Rightarrow> jsnum \<Rightarrow> jsnum" where
  "js_mul NaN b = NaN"
| "js_mul a NaN = NaN"
| "js_mul (Fin p) (Fin q) = Fin (p * q)"
| "js_mul a b = (if js_sign a * js_sign b = 0 then NaN else js_inf (js_sign a * js_sign b))"

text \<open>\<^verbatim>\<open>a / b\<close>; a zero divisor counts as \<open>+0\<close>.\<close>

fun js_div :: "jsnum \<Rightarrow> jsnum \<Rightarrow> jsnum" where
  "js_div NaN b = NaN"
| "js_div a NaN = NaN"
| "js_div (Fin p) (Fin q) =
     (if q = 0 then (if p = 0 then NaN else js_inf (js_sign (Fin p))) else Fin (p / q))"
| "js_div (Fin p) b = Fin 0"
| "js_div a (Fin q) = js_inf (js_sign a * (if q < 0 then - 1 else 1))"
| "js_div a b = NaN"

fun js_le :: "jsnum \<Rightarrow> jsnum \<Rightarrow> bool" where
  "js_le NaN b = False"
| "js_le a NaN = False"
| "js_le NInf b = True"
| "js_le a PInf = True"
| "js_le (Fin p) (Fin q) = (p \<le> q)"
| "js_le a b = False"

text \<open>\<^verbatim>\<open>Math.max\<close> and \<^verbatim>\<open>Math.min\<close> of two arguments: \<open>NaN\<close> if either is.\<close>

definition Math_max :: "jsnum \<Rightarrow> jsnum \<Rightarrow> jsnum" where
  "Math_max a b = (if a = NaN \<or> b = NaN then NaN else if js_le a b then b else a)"

definition Math_min :: "jsnum \<Rightarrow> jsnum \<Rightarrow> jsnum" where
  "Math_min a b = (if a = NaN \<or> b = NaN then NaN else if js_le a b then a else b)"

text \<open>Truthiness of a number (\<^verbatim>\<open>x || d\<close>): \<open>0\<close> and \<open>NaN\<close> are falsy.\<close>

definition num_or :: "jsnum \<Rightarrow> jsnum \<Rightarrow> jsnum" where
  "num_or x d = (if x = NaN \<or> x = Fin 0 then d else x)"

subsection \<open>Strings\<close>

text \<open>White space and line terminators among the code units below 256.\<close>

definition isWhiteSpace :: "char \<Rightarrow> bool" where
  "isWhiteSpace c =
     (c \<in> set [CHR 0x09, CHR 0x0A, CHR 0x0B, CHR 0x0C, CHR 0x0D, CHR 0x20, CHR 0xA0])"

text \<open>\<^verbatim>\<open>s.trim()\<close>\<close>

definition trim :: "string \<Rightarrow> string" where
  "trim s = rev (dropWhile isWhiteSpace (rev (dropWhile isWhiteSpace s)))"

text \<open>\<^verbatim>\<open>s.startsWith(p)\<close>\<close>

definition startsWith :: "string \<Rightarrow> string \<Rightarrow> bool" where
  "startsWith s p = (take (length p) s = p)"

text \<open>\<^verbatim>\<open>s.includes(p)\<close>\<close>

fun includes_str :: "string \<Rightarrow> string \<Rightarrow> bool" where
  "includes_str [] p = (p = [])"
| "includes_str (x # xs) p = (startsWith (x # xs) p \<or> includes_str xs p)"

text \<open>\<^verbatim>\<open>s.substring(n)\<close>\<close>

definition substring :: "string \<Rightarrow> nat \<Rightarrow> string" where
  "substring s n = drop n s"

text \<open>\<^verbatim>\<open>s.split(sep)\<close> for a one-character separator; the result is never empty.\<close>

fun split :: "char \<Rightarrow> string \<Rightarrow> string list" where
  "split sep [] = [[]]"
| "split sep (x # xs) =
     (if x = sep then [] # split sep xs
      else (case split sep xs of [] \<Rightarrow> [[x]] | p # ps \<Rightarrow> (x # p) # ps))"

definition isDigit :: "char \<Rightarrow> bool" where
  "isDigit c = (c \<in> set ''0123456789'')"

text \<open>The character class \<^verbatim>\<open>[-\d.]\<close> of the decoder's regular expressions.\<close>

definition inClass :: "char \<Rightarrow> bool" where
  "inClass c = (isDigit c \<or> c = CHR ''-'' \<or> c = CHR ''.'')"

text \<open>
  \<^verbatim>\<open>s.match(/KEY([-\d.]+)/)\<close>: the leftmost position where \<open>key\<close> is followed by at
  least one character of the class; the capture group is the longest such run. \<open>None\<close>
  is JavaScript's \<^verbatim>\<open>null\<close>.
\<close>

fun matchField :: "string \<Rightarrow> string \<Rightarrow> string option" where
  "matchField key [] = None"
| "matchField key (x # xs) =
     (if startsWith (x # xs) key \<and> takeWhile inClass (drop (length key) (x # xs)) \<noteq> []
      then Some (takeWhile inClass (drop (length key) (x # xs)))
      else matchField key xs)"

subsection \<open>Numbers from and to text\<close>

definition digitVal :: "char \<Rightarrow> nat" where
  "digitVal c = (of_char c :: nat) - 48"

definition digitsVal :: "string \<Rightarrow> nat" where
  "digitsVal ds = foldl (\<lambda>n c. 10 * n + digitVal c) 0 ds"

definition pow10 :: "int \<Rightarrow> rat" where
  "pow10 e = (if 0 \<le> e then 10 ^ nat e else 1 / 10 ^ nat (- e))"

text \<open>The exponent part \<^verbatim>\<open>[eE][+-]?digits\<close>, read only when it is complete.\<close>

definition parseExponent :: "string \<Rightarrow> int" where
  "parseExponent r =
     (case r of
        [] \<Rightarrow> 0
      | c # r' \<Rightarrow>
          if c = CHR ''e'' \<or> c = CHR ''E'' then
            (let neg = (r' \<noteq> [] \<and> hd r' = CHR ''-'');
                 r'' = (if r' \<noteq> [] \<and> (hd r' = CHR ''-'' \<or> hd r' = CHR ''+'') then tl r' else r');
                 ds = takeWhile isDigit r''
             in if ds = [] then 0 else if neg then - int (digitsVal ds) else int (digitsVal ds))
          else 0)"

text \<open>
  \<^verbatim>\<open>parseFloat(s)\<close>: leading white space is skipped, then the longest prefix that is a
  decimal literal (\<^verbatim>\<open>[+-]?(Infinity | digits[.digits][exp] | .digits[exp])\<close>) is read;
  the rest of the string is ignored; no such prefix gives \<open>NaN\<close>.
\<close>

definition parseFloat :: "string \<Rightarrow> jsnum" where
  "parseFloat inp =
     (let t = dropWhile isWhiteSpace inp;
          neg = (t \<noteq> [] \<and> hd t = CHR ''-'');
          r = (if t \<noteq> [] \<and> (hd t = CHR ''-'' \<or> hd t = CHR ''+'') then tl t else t)
      in if startsWith r ''Infinity'' then (if neg then NInf else PInf)
         else
           (let ip = takeWhile isDigit r;
                r1 = dropWhile isDigit r;
                hasDot = (r1 \<noteq> [] \<and> hd r1 = CHR ''.'');
                fp = (if hasDot then takeWhile isDigit (tl r1) else []);
                r2 = (if hasDot then dropWhile isDigit (tl r1) else r1)
            in if ip = [] \<and> fp = [] then NaN
               else
                 (let m = of_nat (digitsVal ip) + of_nat (digitsVal fp) / 10 ^ length fp;
                      v = m * pow10 (parseExponent r2)
                  in Fin (if neg then - v else v))))"

definition digitChar :: "nat \<Rightarrow> char" where
  "digitChar d = ''0123456789'' ! (d mod 10)"

fun digitsOf :: "nat \<Rightarrow> string" where
  "digitsOf n = (if n < 10 then [digitChar n] else digitsOf (n div 10) @ [digitChar (n mod 10)])"

declare digitsOf.simps [simp del]

text \<open>
  Exponent notation of a value of at least \<open>10^21\<close> (\<^verbatim>\<open>Number::toString\<close>): the digits
  of the nearest integer with trailing zeros removed, then \<^verbatim>\<open>e+\<close> and the exponent.
\<close>

definition bigToString :: "rat \<Rightarrow> string" where
  "bigToString x =
     (let ds = digitsOf (nat \<lfloor>x + 1 / 2\<rfloor>);
          sig = rev (dropWhile (\<lambda>c. c = CHR ''0'') (rev ds))
      in (case sig of
            [] \<Rightarrow> ''0''
          | d # rest \<Rightarrow> d # (if rest = [] then [] else CHR ''.'' # rest))
         @ ''e+'' @ digitsOf (length ds - 1))"

text \<open>
  \<^verbatim>\<open>x.toFixed(1)\<close>: for \<open>0 \<le> x < 10^21\<close> the integer \<open>n\<close> with \<open>n / 10\<close> nearest to
  \<open>x\<close> (the larger one on a tie), printed with one digit after the point.
\<close>

definition fixed1 :: "rat \<Rightarrow> string" where
  "fixed1 x =
     (if 10 ^ 21 \<le> x then bigToString x
      else (let n = nat \<lfloor>x * 10 + 1 / 2\<rfloor>
            in digitsOf (n div 10) @ ''.'' @ digitsOf (n mod 10)))"

fun toFixed1 :: "jsnum \<Rightarrow> string" where
  "toFixed1 NaN = ''NaN''"
| "toFixed1 PInf = ''Infinity''"
| "toFixed1 NInf = ''-Infinity''"
| "toFixed1 (Fin q) = (if q < 0 then ''-'' @ fixed1 (- q) else fixed1 q)"

section \<open>The haptic configuration record and its update helper\<close>

text \<open>
  \<^verbatim>\<open>interface TFDState\<close> of \<^verbatim>\<open>preload.js\<close> (lines 103-121). The \<^verbatim>\<open>mode\<close>,
  \<^verbatim>\<open>deviceType\<close> and \<^verbatim>\<open>endstopMode\<close> fields are string unions in TypeScript and plain
  strings at run time; they are strings here, so that a value outside the union can be
  written down. The second component of \<^verbatim>\<open>mini-tfd-control.tsx\<close> has the same record
  without \<^verbatim>\<open>endstopMode\<close> and \<^verbatim>\<open>isSticky\<close>.
\<close>

record TFDState =
  mode :: string
  currentAngle :: jsnum
  currentVelocity :: jsnum
  currentTorque :: jsnum
  torque :: jsnum
  stiffness :: jsnum
  targetAngle :: jsnum
  selectedPort :: string
  baudRate :: jsnum
  isPolling :: bool
  pollInterval :: jsnum
  endstopTurns :: jsnum
  endstopMinAngle :: jsnum
  endstopMaxAngle :: jsnum
  deviceType :: string
  endstopMode :: string
  isSticky :: bool

text \<open>
  \<^verbatim>\<open>Partial<TFDState>\<close>: every field optional; \<open>None\<close> is a key that is absent (or
  \<^verbatim>\<open>undefined\<close>).
\<close>

record TFDUpdates =
  u_mode :: "string option"
  u_currentAngle :: "jsnum option"
  u_currentVelocity :: "jsnum option"
  u_currentTorque :: "jsnum option"
  u_torque :: "jsnum option"
  u_stiffness :: "jsnum option"
  u_targetAngle :: "jsnum option"
  u_selectedPort :: "string option"
  u_baudRate :: "jsnum option"
  u_isPolling :: "bool option"
  u_pollInterval :: "jsnum option"
  u_endstopTurns :: "jsnum option"
  u_endstopMinAngle :: "jsnum option"
  u_endstopMaxAngle :: "jsnum option"
  u_deviceType :: "string option"
  u_endstopMode :: "string option"
  u_isSticky :: "bool option"

definition no_updates :: TFDUpdates where
  "no_updates =
     \<lparr> u_mode = None, u_currentAngle = None, u_currentVelocity = None, u_currentTorque = None,
       u_torque = None, u_stiffness = None, u_targetAngle = None, u_selectedPort = None,
       u_baudRate = None, u_isPolling = None, u_pollInterval = None, u_endstopTurns = None,
       u_endstopMinAngle = None, u_endstopMaxAngle = None, u_deviceType = None,
       u_endstopMode = None, u_isSticky = None \<rparr>"

definition orElse :: "'a option \<Rightarrow> 'a \<Rightarrow> 'a" where
  "orElse u v = (case u of None \<Rightarrow> v | Some w \<Rightarrow> w)"

text \<open>The object spread \<^verbatim>\<open>{ ...prev, ...updates }\<close>.\<close>

definition spread :: "TFDState \<Rightarrow> TFDUpdates \<Rightarrow> TFDState" where
  "spread prev u =
     \<lparr> mode = orElse (u_mode u) (mode prev),
       currentAngle = orElse (u_currentAngle u) (currentAngle prev),
       currentVelocity = orElse (u_currentVelocity u) (currentVelocity prev),
       currentTorque = orElse (u_currentTorque u) (currentTorque prev),
       torque = orElse (u_torque u) (torque prev),
       stiffness = orElse (u_stiffness u) (stiffness prev),
       targetAngle = orElse (u_targetAngle u) (targetAngle prev),
       selectedPort = orElse (u_selectedPort u) (selectedPort prev),
       baudRate = orElse (u_baudRate u) (baudRate prev),
       isPolling = orElse (u_isPolling u) (isPolling prev),
       pollInterval = orElse (u_pollInterval u) (pollInterval prev),
       endstopTurns = orElse (u_endstopTurns u) (endstopTurns prev),
       endstopMinAngle = orElse (u_endstopMinAngle u) (endstopMinAngle prev),
       endstopMaxAngle = orElse (u_endstopMaxAngle u) (endstopMaxAngle prev),
       deviceType = orElse (u_deviceType u) (deviceType prev),
       endstopMode = orElse (u_endstopMode u) (endstopMode prev),
       isSticky = orElse (u_isSticky u) (isSticky prev) \<rparr>"

text \<open>
  \<^verbatim>\<open>updateState\<close> (\<^verbatim>\<open>preload.js\<close> 287-300, the same text in
  \<^verbatim>\<open>mini-tfd-control.tsx\<close> 150-163 and 1630-1643): the function passed to
  \<^verbatim>\<open>setState\<close>, from the previous state to the next one.
\<close>

definition updateState :: "TFDUpdates \<Rightarrow> TFDState \<Rightarrow> TFDState" where
  "updateState updates prev =
     (let newState = spread prev updates
      in case u_endstopTurns updates of
           None \<Rightarrow> newState
         | Some turns \<Rightarrow>
             (let totalDegrees = js_mul turns (Fin 360)
              in newState \<lparr> endstopMinAngle := js_div (js_neg totalDegrees) (Fin 2),
                            endstopMaxAngle := js_div totalDegrees (Fin 2) \<rparr>))"

text \<open>The initial \<^verbatim>\<open>useState\<close> value of \<^verbatim>\<open>preload.js\<close> (lines 203-221).\<close>

definition initialState :: TFDState where
  "initialState =
     \<lparr> mode = ''none'', currentAngle = Fin 0, currentVelocity = Fin 0, currentTorque = Fin 0,
       torque = Fin (1 / 5), stiffness = Fin (4 / 5), targetAngle = Fin 0, selectedPort = [],
       baudRate = Fin 115200, isPolling = True, pollInterval = Fin 20, endstopTurns = Fin 1,
       endstopMinAngle = Fin (- 180), endstopMaxAngle = Fin 180, deviceType = ''knob'',
       endstopMode = ''none'', isSticky = False \<rparr>"


section \<open>The command encoders\<close>

text \<open>
  \<^verbatim>\<open>formatTFDCommand\<close> (\<^verbatim>\<open>preload.js\<close> 2145-2189): a \<^verbatim>\<open>switch\<close> on the mode string,
  with a nested \<^verbatim>\<open>switch\<close> on the endstop mode; both have a \<^verbatim>\<open>default\<close> branch.
\<close>

definition formatTFDCommand :: "TFDState \<Rightarrow> string" where
  "formatTFDCommand config =
     (if mode config = ''none'' then ''set normal\<newline>''
      else if mode config = ''soft-detents'' then ''set detent:ultra\<newline>''
      else if mode config = ''medium-detents'' then ''set detent:fine\<newline>''
      else if mode config = ''rough-detents'' then ''set detent:coarse\<newline>''
      else if mode config = ''clockwise'' then ''set cw\<newline>''
      else if mode config = ''counterclockwise'' then ''set ccw\<newline>''
      else if mode config = ''increased-torque'' then
        ''set constant:'' @ toFixed1 (torque config) @ ''\<newline>''
      else if mode config = ''lock'' then ''set constant:1.0\<newline>''
      else if mode config = ''endstops'' then
        (if endstopMode config = ''proportional'' then
           ''set endstops-proportional:'' @ toFixed1 (endstopTurns config) @ ''\<newline>''
         else if endstopMode config = ''soft'' then
           ''set endstops-ultra:'' @ toFixed1 (endstopTurns config) @ ''\<newline>''
         else if endstopMode config = ''medium'' then
           ''set endstops-fine:'' @ toFixed1 (endstopTurns config) @ ''\<newline>''
         else if endstopMode config = ''rough'' then
           ''set endstops-coarse:'' @ toFixed1 (endstopTurns config) @ ''\<newline>''
         else if endstopMode config = ''center'' then
           ''set endstops-center:'' @ toFixed1 (endstopTurns config) @ ''\<newline>''
         else ''set endstops:'' @ toFixed1 (endstopTurns config) @ ''\<newline>'')
      else if mode config = ''center-detent'' then ''set detent:center\<newline>''
      else if mode config = ''proportional-control'' then
        ''set proportional:'' @ toFixed1 (targetAngle config) @ '','' @ toFixed1 (stiffness config)
          @ ''\<newline>''
      else if mode config = ''inertial-control'' then
        ''set inertial:'' @ toFixed1 (stiffness config) @ ''\<newline>''
      else if mode config = ''latch'' then ''set latch\<newline>''
      else ''set normal\<newline>'')"

text \<open>The \<^verbatim>\<open>HapticMode\<close> union (\<^verbatim>\<open>preload.js\<close> 84-97): the documented enumeration.\<close>

definition hapticModes :: "string list" where
  "hapticModes =
     [''none'', ''soft-detents'', ''medium-detents'', ''rough-detents'', ''clockwise'',
      ''counterclockwise'', ''increased-torque'', ''lock'', ''endstops'', ''center-detent'',
      ''proportional-control'', ''inertial-control'', ''latch'']"

text \<open>
  \<^verbatim>\<open>interface HapticConfig\<close> and \<^verbatim>\<open>formatHapticCommand\<close> of the serial hook
  (\<^verbatim>\<open>src/unnamed/part_000\<close>, lines 18-24 and 377-405); \<^verbatim>\<open>mode\<close> is declared
  \<^verbatim>\<open>string\<close> there. The conversion of a number inside a template literal
  (\<^verbatim>\<open>Number::toString\<close>, the shortest decimal that reads back as the same double) is the
  parameter \<open>toStr\<close>. \<^verbatim>\<open>toUpperCase\<close> is modelled on ASCII; other code units are left
  as they are.
\<close>

record HapticConfig =
  h_mode :: string
  h_angle :: jsnum
  h_torque :: "jsnum option"
  h_stiffness :: "jsnum option"
  h_targetAngle :: "jsnum option"

definition toUpperCase :: "string \<Rightarrow> string" where
  "toUpperCase s =
     map (\<lambda>c. if (97::nat) \<le> of_char c \<and> of_char c \<le> (122::nat)
                then char_of ((of_char c :: nat) - 32) else c) s"

definition opt_num_or :: "jsnum option \<Rightarrow> jsnum \<Rightarrow> jsnum" where
  "opt_num_or x d = (case x of None \<Rightarrow> d | Some v \<Rightarrow> num_or v d)"

definition formatHapticCommand :: "(jsnum \<Rightarrow> string) \<Rightarrow> HapticConfig \<Rightarrow> string" where
  "formatHapticCommand toStr config =
     (if h_mode config = ''none'' then ''MODE:NONE\<newline>''
      else if h_mode config = ''soft-detents'' then ''MODE:DETENTS,SOFT\<newline>''
      else if h_mode config = ''medium-detents'' then ''MODE:DETENTS,MEDIUM\<newline>''
      else if h_mode config = ''rough-detents'' then ''MODE:DETENTS,ROUGH\<newline>''
      else if h_mode config = ''clockwise'' then ''MODE:CLOCKWISE\<newline>''
      else if h_mode config = ''counterclockwise'' then ''MODE:COUNTERCLOCKWISE\<newline>''
      else if h_mode config = ''increased-torque'' then
        ''MODE:TORQUE,'' @ toStr (opt_num_or (h_torque config) (Fin (1 / 2))) @ ''\<newline>''
      else if h_mode config = ''lock'' then ''MODE:LOCK\<newline>''
      else if h_mode config = ''endstops'' then ''MODE:ENDSTOPS\<newline>''
      else if h_mode config = ''center-detent'' then ''MODE:CENTER_DETENT\<newline>''
      else if h_mode config = ''proportional-control'' then
        ''MODE:PROPORTIONAL,'' @ toStr (opt_num_or (h_stiffness config) (Fin (4 / 5))) @ '',''
          @ toStr (opt_num_or (h_targetAngle config) (Fin 0)) @ ''\<newline>''
      else ''MODE:'' @ toUpperCase (h_mode config) @ ''\<newline>'')"

section \<open>The session: React state, closures, timers and effects\<close>

text \<open>
  \<^verbatim>\<open>MiniTFDControl\<close> of \<^verbatim>\<open>preload.js\<close> keeps its state in \<^verbatim>\<open>useState\<close> cells (lines
  203-247). A function defined in the component body reads the cells of the render that
  created it: inside \<^verbatim>\<open>handleReconnection\<close>, \<^verbatim>\<open>reconnectAttempts\<close> is a \<^verbatim>\<open>const\<close> of
  that render, and \<^verbatim>\<open>setReconnectAttempts\<close> changes the cell for later renders only. The
  model keeps the two apart: a value of type \<open>cells\<close> passed as \<open>c\<close> is the render a
  closure was created in (what the function reads), and the \<open>session\<close> passed as \<open>s\<close>
  holds the current cells (what the setters write), the timers and the log of effects.
  Updates made in one run of a handler are applied together before the next render.

  Cells that no handler below reads (\<^verbatim>\<open>lastResponse\<close>, \<^verbatim>\<open>lastAngleUpdate\<close>,
  \<^verbatim>\<open>availablePorts\<close>, \<^verbatim>\<open>isScanning\<close>, \<^verbatim>\<open>isAutoConnecting\<close>, \<^verbatim>\<open>filteredAngle\<close>) are
  left out, and so is the product id kept in \<^verbatim>\<open>localStorage\<close>.
\<close>

record cells =
  state :: TFDState
  isConnected :: bool
  isConnecting :: bool
  error :: "string option"
  isElectron :: bool
  pendingAngleRequest :: bool
  pendingVelocityRequest :: bool
  isDeviceResponding :: bool
  reconnectAttempts :: nat
  isReconnecting :: bool
  isInGracePeriod :: bool
  lastPortPath :: string
  lastBaudRate :: jsnum
  hasAttemptedReconnect :: bool

text \<open>
  What a handler does to the outside, in order: calls of the transport bridge
  (\<^verbatim>\<open>window.electronAPI\<close>), waiting (a \<^verbatim>\<open>setTimeout\<close> that the same function
  continues after), \<^verbatim>\<open>console.warn\<close> and \<^verbatim>\<open>console.error\<close> (\<^verbatim>\<open>console.log\<close> is not
  recorded), and the call of \<^verbatim>\<open>handleReconnection\<close> from the liveness timeout.
\<close>

datatype effect =
    SerialWrite string
  | SerialConnect string jsnum
  | SerialDisconnect
  | Wait nat
  | ConsoleWarn string string
  | ConsoleError string
  | CallHandleReconnection

text \<open>
  The session adds to the cells: whether \<^verbatim>\<open>window.electronAPI\<close> exists; the pending
  timeout that \<^verbatim>\<open>deviceResponseTimeoutRef\<close> designates, as its deadline in ms and the
  closure of its callback (\<open>None\<close> when none is pending); the pending grace timers of
  \<^verbatim>\<open>connect\<close>; the closure of the \<^verbatim>\<open>handleSerialData\<close> that is registered on the
  bridge (\<open>None\<close> when none is) and the dependency values of the effect that registered
  it; and the effects so far.
\<close>

record session = cells +
  electronAPI :: bool
  deviceResponseTimeout :: "(nat \<times> cells) option"
  graceTimers :: "(nat \<times> cells) list"
  handler :: "cells option"
  effectDeps :: "bool \<times> bool \<times> bool"
  effects :: "effect list"

definition initialCells :: cells where
  "initialCells =
     \<lparr> state = initialState, isConnected = False, isConnecting = False, error = None,
       isElectron = False, pendingAngleRequest = False, pendingVelocityRequest = False,
       isDeviceResponding = False, reconnectAttempts = 0, isReconnecting = False,
       isInGracePeriod = False, lastPortPath = [], lastBaudRate = Fin 115200,
       hasAttemptedReconnect = False \<rparr>"

definition initialSession :: session where
  "initialSession =
     cells.extend initialCells
       \<lparr> electronAPI = False, deviceResponseTimeout = None, graceTimers = [],
         handler = None, effectDeps = (False, False, False), effects = [] \<rparr>"

text \<open>The render a closure created now would capture.\<close>

definition snapshot :: "session \<Rightarrow> cells" where
  "snapshot s = cells.truncate s"

definition emit :: "effect \<Rightarrow> session \<Rightarrow> session" where
  "emit e s = s \<lparr> effects := effects s @ [e] \<rparr>"

text \<open>
  The result of a bridge call: the promise resolves with
  \<^verbatim>\<open>{ success: boolean; error?: string }\<close> (\<^verbatim>\<open>preload.js\<close> 157-159) or rejects with an
  \<^verbatim>\<open>Error\<close> carrying a message.
\<close>

record ipc_result =
  success :: bool
  err :: "string option"

datatype ipc_outcome = Resolved ipc_result | Rejected string

text \<open>\<^verbatim>\<open>result.error || d\<close>: absent and empty messages are falsy.\<close>

definition str_or :: "string option \<Rightarrow> string \<Rightarrow> string" where
  "str_or x d = (case x of None \<Rightarrow> d | Some m \<Rightarrow> if m = [] then d else m)"

section \<open>The transport handlers of the main process\<close>

text \<open>
  \<^verbatim>\<open>electron.js\<close> keeps the open port in \<^verbatim>\<open>global.serialPort\<close>. What the operating system
  answers is an argument of the models: whether \<^verbatim>\<open>require("serialport")\<close> succeeds, the
  error that \<^verbatim>\<open>open\<close> reports, the error that \<^verbatim>\<open>write\<close> reports.
\<close>

record serial_port =
  sp_path :: string
  isOpen :: bool

record main_process =
  serialPort :: "serial_port option"

definition ok_result :: ipc_result where
  "ok_result = \<lparr> success = True, err = None \<rparr>"

definition portIsOpen :: "main_process \<Rightarrow> bool" where
  "portIsOpen g = (case serialPort g of None \<Rightarrow> False | Some p \<Rightarrow> isOpen p)"

text \<open>
  The \<^verbatim>\<open>serial-connect\<close> handler (lines 260-328). The inner \<^verbatim>\<open>try\<close> covers the
  \<^verbatim>\<open>require\<close> and the \<^verbatim>\<open>open\<close>; its \<^verbatim>\<open>catch\<close> returns the mock success.
\<close>

definition serial_connect ::
  "string \<Rightarrow> bool \<Rightarrow> string option \<Rightarrow> main_process \<Rightarrow> ipc_result \<times> main_process" where
  "serial_connect portPath moduleAvailable openError g =
     (if \<not> moduleAvailable then (ok_result, g)
      else
        (let g1 = g \<lparr> serialPort := Some \<lparr> sp_path = portPath, isOpen = False \<rparr> \<rparr>
         in case openError of
              Some e \<Rightarrow> (ok_result, g1)
            | None \<Rightarrow> (ok_result, g \<lparr> serialPort := Some \<lparr> sp_path = portPath, isOpen = True \<rparr> \<rparr>)))"

text \<open>The \<^verbatim>\<open>serial-disconnect\<close> handler (lines 330-353).\<close>

definition serial_disconnect :: "main_process \<Rightarrow> ipc_result \<times> main_process" where
  "serial_disconnect g =
     (if portIsOpen g then (ok_result, g \<lparr> serialPort := None \<rparr>) else (ok_result, g))"

text \<open>
  The \<^verbatim>\<open>serial-write\<close> handler (lines 355-379): the write is attempted only on an open
  port; the \<^verbatim>\<open>else\<close> branch is the mock write.
\<close>

definition serial_write :: "string \<Rightarrow> string option \<Rightarrow> main_process \<Rightarrow> ipc_result" where
  "serial_write data writeError g =
     (if portIsOpen g then
        (case writeError of
           Some e \<Rightarrow> \<lparr> success = False, err = Some e \<rparr>
         | None \<Rightarrow> ok_result)
      else ok_result)"

section \<open>Connecting and the liveness probe\<close>

text \<open>\<^verbatim>\<open>checkDeviceResponsiveness\<close> (\<^verbatim>\<open>preload.js\<close> 404-414); \<open>w\<close> answers the write.\<close>

definition checkDeviceResponsiveness :: "cells \<Rightarrow> ipc_outcome \<Rightarrow> session \<Rightarrow> bool \<times> session" where
  "checkDeviceResponsiveness c w s =
     (if \<not> isElectron c \<or> \<not> electronAPI s then (False, s)
      else
        (let s1 = emit (SerialWrite ''get all\<newline>'') s
         in case w of
              Resolved r \<Rightarrow> (success r, s1)
            | Rejected e \<Rightarrow> (False, emit (ConsoleError ''Error checking device responsiveness:'') s1)))"

definition connectFailed :: "string \<Rightarrow> session \<Rightarrow> session" where
  "connectFailed msg s =
     (emit (ConsoleError ''Connection failed:'') s)
       \<lparr> error := Some msg, isConnected := False, isDeviceResponding := False \<rparr>"

text \<open>
  \<^verbatim>\<open>connect\<close> (\<^verbatim>\<open>preload.js\<close> 475-546); \<open>res\<close> answers \<^verbatim>\<open>serialConnect\<close> and \<open>now\<close> is
  the time in ms at which it does. On success the grace timer is set: its callback, with
  the closure \<open>c\<close>, is due 2000 ms later.
\<close>

definition connect ::
  "cells \<Rightarrow> string option \<Rightarrow> jsnum option \<Rightarrow> ipc_outcome \<Rightarrow> nat \<Rightarrow> session \<Rightarrow> session" where
  "connect c portPath baud res now s =
     (let targetPort = str_or portPath (selectedPort (state c));
          targetBaudRate = opt_num_or baud (baudRate (state c))
      in if targetPort = [] then s \<lparr> error := Some ''Please select a port first'' \<rparr>
         else
           (let s1 = s \<lparr> lastPortPath := targetPort, lastBaudRate := targetBaudRate,
                         reconnectAttempts := 0, hasAttemptedReconnect := False,
                         isConnecting := True, error := None, isDeviceResponding := False,
                         deviceResponseTimeout := None \<rparr>;
                s2 =
                  (if isElectron c \<and> electronAPI s1 then
                     (let s' = emit (SerialConnect targetPort targetBaudRate) s1
                      in case res of
                           Resolved r \<Rightarrow>
                             if success r then
                               s' \<lparr> isConnected := True, isInGracePeriod := True,
                                    graceTimers := graceTimers s' @ [(now + 2000, c)] \<rparr>
                             else connectFailed (str_or (err r) ''Connection failed'') s'
                         | Rejected e \<Rightarrow> connectFailed e s')
                   else connectFailed ''Serial communication not available in browser'' s1)
            in s2 \<lparr> isConnecting := False \<rparr>))"

text \<open>The callback of the grace timer of \<^verbatim>\<open>connect\<close> (lines 522-531); \<open>w\<close> answers the probe.\<close>

definition connectGraceCallback :: "cells \<Rightarrow> ipc_outcome \<Rightarrow> session \<Rightarrow> session" where
  "connectGraceCallback c w s =
     (let s1 = s \<lparr> isInGracePeriod := False \<rparr>;
          (isResponding, s2) = checkDeviceResponsiveness c w s1
      in if \<not> isResponding then
           s2 \<lparr> error := Some ''Device not responding after connection'',
                isDeviceResponding := False \<rparr>
         else s2 \<lparr> isDeviceResponding := True \<rparr>)"

section \<open>Reconnection\<close>

text \<open>
  One attempt of \<^verbatim>\<open>handleReconnection\<close> talks to the transport up to three times; an
  \<open>attempt\<close> holds the three answers (the probe is asked only after a successful reopen).
\<close>

record attempt =
  disc :: ipc_outcome
  conn :: ipc_outcome
  probe :: ipc_outcome

text \<open>The \<^verbatim>\<open>catch\<close> block (lines 461-468) before its recursive call, and the \<^verbatim>\<open>finally\<close>.\<close>

definition reconnectCaught :: "session \<Rightarrow> session" where
  "reconnectCaught s =
     (emit (ConsoleError ''Reconnection failed:'') s) \<lparr> reconnectAttempts := reconnectAttempts s + 1 \<rparr>"

definition reconnectFinally :: "session \<Rightarrow> session" where
  "reconnectFinally s = s \<lparr> isReconnecting := False \<rparr>"

text \<open>
  \<^verbatim>\<open>handleReconnection\<close> (\<^verbatim>\<open>preload.js\<close> 417-472), followed through its grace timer and
  its recursive calls. The list holds the transport's answers, one \<open>attempt\<close> per call that
  gets past the guard; when it is used up the function is left waiting on the transport.
  The guard and the two tests \<^verbatim>\<open>reconnectAttempts + 1 < 3\<close> read the closure \<open>c\<close>; the
  recursive calls are calls of the same closure. \<^verbatim>\<open>Wait 1000\<close> is the pause before the
  reopen and \<^verbatim>\<open>Wait 2000\<close> the grace period.
\<close>

fun handleReconnection :: "cells \<Rightarrow> attempt list \<Rightarrow> session \<Rightarrow> session" where
  "handleReconnection c [] s =
     (if isReconnecting c \<or> 3 \<le> reconnectAttempts c \<or> lastPortPath c = [] then s
      else
        (let s1 = s \<lparr> isReconnecting := True \<rparr>
         in if isElectron c \<and> electronAPI s then emit SerialDisconnect s1
            else reconnectFinally (emit (Wait 1000) s1)))"
| "handleReconnection c (a # as) s =
     (if isReconnecting c \<or> 3 \<le> reconnectAttempts c \<or> lastPortPath c = [] then s
      else
        (let s1 = s \<lparr> isReconnecting := True \<rparr>
         in if isElectron c \<and> electronAPI s then
              (let s2 = emit SerialDisconnect s1
               in case disc a of
                    Rejected e \<Rightarrow>
                      (let s3 = reconnectCaught s2
                       in if reconnectAttempts c + 1 < 3
                          then reconnectFinally (handleReconnection c as s3)
                          else reconnectFinally
                                 (s3 \<lparr> error := Some ''Failed to reconnect after multiple attempts'' \<rparr>))
                  | Resolved d \<Rightarrow>
                      (let s3 = emit (SerialConnect (lastPortPath c) (lastBaudRate c))
                                  (emit (Wait 1000) s2)
                       in if (case conn a of Resolved r \<Rightarrow> success r | Rejected e \<Rightarrow> False) then
                            (let s4 = reconnectFinally
                                        (s3 \<lparr> isConnected := True, isInGracePeriod := True \<rparr>);
                                 s5 = (emit (Wait 2000) s4) \<lparr> isInGracePeriod := False \<rparr>;
                                 (isResponding, s6) = checkDeviceResponsiveness c (probe a) s5
                             in if \<not> isResponding then
                                  (let s7 = s6 \<lparr> reconnectAttempts := reconnectAttempts s6 + 1 \<rparr>
                                   in if reconnectAttempts c + 1 < 3
                                      then handleReconnection c as s7
                                      else s7 \<lparr> error :=
                                                  Some ''Device not responding after reconnection attempts'',
                                                isDeviceResponding := False \<rparr>)
                                else s6 \<lparr> isDeviceResponding := True, reconnectAttempts := 0,
                                          hasAttemptedReconnect := False \<rparr>)
                          else
                            (let s4 = reconnectCaught s3
                             in if reconnectAttempts c + 1 < 3
                                then reconnectFinally (handleReconnection c as s4)
                                else reconnectFinally
                                       (s4 \<lparr> error :=
                                               Some ''Failed to reconnect after multiple attempts'' \<rparr>))))
            else reconnectFinally (emit (Wait 1000) s1)))"

declare handleReconnection.simps [simp del]

section \<open>Sending a configuration\<close>

definition sendFailed :: "string \<Rightarrow> session \<Rightarrow> session" where
  "sendFailed msg s = (emit (ConsoleError ''Failed to send TFD config:'') s) \<lparr> error := Some msg \<rparr>"

text \<open>
  \<^verbatim>\<open>sendTFDConfig\<close> (\<^verbatim>\<open>preload.js\<close> 704-738); \<open>w1\<close> answers the write of the command and
  \<open>w2\<close> the write of the sticky line. Without \<^verbatim>\<open>window.electronAPI\<close> the call raises a
  \<^verbatim>\<open>TypeError\<close>, which the \<^verbatim>\<open>catch\<close> reports like any other failure.
\<close>

definition sendTFDConfig :: "cells \<Rightarrow> ipc_outcome \<Rightarrow> ipc_outcome \<Rightarrow> session \<Rightarrow> session" where
  "sendTFDConfig c w1 w2 s =
     (if \<not> isConnected c then s \<lparr> error := Some ''Not connected to device'' \<rparr>
      else
        (let command = formatTFDCommand (state c)
         in if \<not> electronAPI s then
              sendFailed ''Cannot read properties of undefined (reading 'serialWrite')'' s
            else
              (let s1 = emit (SerialWrite command) s
               in case w1 of
                    Rejected e \<Rightarrow> sendFailed e s1
                  | Resolved r \<Rightarrow>
                      if \<not> success r then sendFailed (str_or (err r) ''Failed to send config'') s1
                      else if mode (state c) = ''endstops'' then
                        (let s2 = emit (SerialWrite
                                     (''set sticky:'' @ (if isSticky (state c) then ''on'' else ''off'')
                                        @ ''\<newline>'')) s1
                         in case w2 of
                              Rejected e \<Rightarrow> sendFailed e s2
                            | Resolved r2 \<Rightarrow>
                                if \<not> success r2
                                then sendFailed (str_or (err r2) ''Failed to set sticky mode'') s2
                                else s2 \<lparr> error := None \<rparr>)
                      else s1 \<lparr> error := None \<rparr>)))"

text \<open>The lines handed to \<^verbatim>\<open>serialWrite\<close>, in order.\<close>

fun wire :: "effect list \<Rightarrow> string list" where
  "wire [] = []"
| "wire (SerialWrite d # es) = d # wire es"
| "wire (e # es) = wire es"

section \<open>Decoding inbound lines\<close>

text \<open>\<^verbatim>\<open>clampAngle\<close> of \<^verbatim>\<open>preload.js\<close> (lines 303-310): the clamp is commented out.\<close>

definition clampAngle :: "cells \<Rightarrow> jsnum \<Rightarrow> jsnum" where
  "clampAngle c angle = angle"

text \<open>\<^verbatim>\<open>clampAngle\<close> of \<^verbatim>\<open>mini-tfd-control.tsx\<close> (lines 1646-1653).\<close>

definition clampAngle_mini :: "cells \<Rightarrow> jsnum \<Rightarrow> jsnum" where
  "clampAngle_mini c angle =
     (if mode (state c) = ''endstops''
      then Math_max (endstopMinAngle (state c)) (Math_min (endstopMaxAngle (state c)) angle)
      else angle)"

text \<open>The two tests at the head of \<^verbatim>\<open>handleSerialData\<close> in \<^verbatim>\<open>preload.js\<close> (910-911).\<close>

definition isSensorData :: "string \<Rightarrow> bool" where
  "isSensorData cleanData =
     (startsWith cleanData ''ANGLE:'' \<and> includes_str cleanData ''VEL:''
      \<and> includes_str cleanData ''TORQUE:'')"

definition isCommandResponse :: "string \<Rightarrow> bool" where
  "isCommandResponse cleanData = (cleanData = ''OK'')"

datatype js_error = TypeError

text \<open>
  The body of the \<^verbatim>\<open>try\<close> block of \<^verbatim>\<open>handleSerialData\<close> (\<^verbatim>\<open>preload.js\<close> 937-997).
  \<^verbatim>\<open>parts[1].match\<close> and \<^verbatim>\<open>parts[2].match\<close> raise a \<^verbatim>\<open>TypeError\<close> when the line has fewer
  than three comma-separated parts; the three matches are taken before any update.
\<close>

definition parseSensorData :: "cells \<Rightarrow> string \<Rightarrow> session \<Rightarrow> js_error + session" where
  "parseSensorData c cleanData s =
     (let parts = split (CHR '','') cleanData
      in if length parts < 3 then Inl TypeError
         else
           (let angleMatch = matchField ''ANGLE:'' (parts ! 0);
                velMatch = matchField ''VEL:'' (parts ! 1);
                torqueMatch = matchField ''TORQUE:'' (parts ! 2);
                s1 = (case angleMatch of
                        None \<Rightarrow> s
                      | Some a \<Rightarrow>
                          if a = [] then s
                          else (let numericAngle = parseFloat a
                                in if \<not> isNaN numericAngle then
                                     s \<lparr> state := updateState
                                            (no_updates \<lparr> u_currentAngle :=
                                                            Some (clampAngle c numericAngle) \<rparr>)
                                            (state s),
                                         pendingAngleRequest := False \<rparr>
                                   else emit (ConsoleWarn ''Invalid angle value:'' a) s));
                s2 = (case velMatch of
                        None \<Rightarrow> s1
                      | Some v \<Rightarrow>
                          if v = [] then s1
                          else (let numericVelocity = parseFloat v
                                in if \<not> isNaN numericVelocity then
                                     s1 \<lparr> state := updateState
                                             (no_updates \<lparr> u_currentVelocity := Some numericVelocity \<rparr>)
                                             (state s1),
                                          pendingVelocityRequest := False \<rparr>
                                   else emit (ConsoleWarn ''Invalid velocity value:'' v) s1));
                s3 = (case torqueMatch of
                        None \<Rightarrow> s2
                      | Some t \<Rightarrow>
                          if t = [] then s2
                          else (let numericTorque = parseFloat t
                                in if \<not> isNaN numericTorque then
                                     s2 \<lparr> state := updateState
                                             (no_updates \<lparr> u_currentTorque := Some numericTorque \<rparr>)
                                             (state s2) \<rparr>
                                   else emit (ConsoleWarn ''Invalid torque value:'' t) s2))
            in Inr s3))"

text \<open>
  \<^verbatim>\<open>handleSerialData\<close> of \<^verbatim>\<open>preload.js\<close> (lines 904-1009), registered with the closure
  \<open>c\<close>; \<open>now\<close> is the time of arrival in ms. A classified line replaces the pending
  timeout by one that is due 2000 ms later.
\<close>

definition handleSerialData :: "cells \<Rightarrow> nat \<Rightarrow> string \<Rightarrow> session \<Rightarrow> session" where
  "handleSerialData c now data s =
     (let cleanData = trim data;
          s1 = (if isSensorData cleanData \<or> isCommandResponse cleanData then
                  s \<lparr> isDeviceResponding := True, error := None,
                      deviceResponseTimeout := Some (now + 2000, c) \<rparr>
                else s)
      in if isSensorData cleanData then
           (case parseSensorData c cleanData s1 of
              Inl e \<Rightarrow> emit (ConsoleError ''Error parsing sensor data:'') s1
            | Inr s2 \<Rightarrow> s2)
         else s1)"

text \<open>
  The callback of that timeout (lines 923-933); \<open>as\<close> are the transport's answers to the
  reconnection it may start.
\<close>

definition responseTimeoutCallback :: "cells \<Rightarrow> attempt list \<Rightarrow> session \<Rightarrow> session" where
  "responseTimeoutCallback c as s =
     (let s1 = s \<lparr> isDeviceResponding := False, error := Some ''Device stopped responding.'' \<rparr>
      in if \<not> hasAttemptedReconnect c \<and> isConnected c then
           handleReconnection c as
             (emit CallHandleReconnection (s1 \<lparr> hasAttemptedReconnect := True \<rparr>))
         else s1)"

text \<open>
  \<^verbatim>\<open>handleSerialData\<close> of the second component of \<^verbatim>\<open>mini-tfd-control.tsx\<close> (lines
  2139-2200). Its timeout callback only clears the liveness flag and sets the error.
\<close>

definition handleSerialData_mini :: "cells \<Rightarrow> nat \<Rightarrow> string \<Rightarrow> session \<Rightarrow> session" where
  "handleSerialData_mini c now data s =
     (let cleanData = trim data;
          isSensor = (startsWith cleanData ''ANGLE:'' \<or> startsWith cleanData ''VEL:''
                      \<or> startsWith cleanData ''TORQUE:'');
          s1 = (if isSensor \<or> cleanData = ''OK'' then
                  s \<lparr> isDeviceResponding := True, error := None,
                      deviceResponseTimeout := Some (now + 2000, c) \<rparr>
                else s)
      in if startsWith cleanData ''ANGLE:'' then
           (let angleString = substring cleanData (length ''ANGLE:'');
                numericAngle = parseFloat angleString
            in if \<not> isNaN numericAngle then
                 s1 \<lparr> state := updateState
                         (no_updates \<lparr> u_currentAngle := Some (clampAngle_mini c numericAngle) \<rparr>)
                         (state s1),
                      pendingAngleRequest := False \<rparr>
               else emit (ConsoleWarn ''Received non-numeric angle data:'' angleString) s1)
         else if startsWith cleanData ''VEL:'' then
           (let velocityString = substring cleanData (length ''VEL:'');
                numericVelocity = parseFloat velocityString
            in if \<not> isNaN numericVelocity then
                 s1 \<lparr> state := updateState
                         (no_updates \<lparr> u_currentVelocity := Some numericVelocity \<rparr>) (state s1),
                      pendingVelocityRequest := False \<rparr>
               else emit (ConsoleWarn ''Received non-numeric velocity data:'' velocityString) s1)
         else if startsWith cleanData ''TORQUE:'' then
           (let torqueString = substring cleanData (length ''TORQUE:'');
                numericTorque = parseFloat torqueString
            in if \<not> isNaN numericTorque then
                 s1 \<lparr> state := updateState
                         (no_updates \<lparr> u_currentTorque := Some numericTorque \<rparr>) (state s1) \<rparr>
               else emit (ConsoleWarn ''Received non-numeric torque data:'' torqueString) s1)
         else emit (ConsoleWarn ''Received unhandled serial data:'' cleanData) s1)"

section \<open>Events\<close>

text \<open>
  The effect that registers \<^verbatim>\<open>handleSerialData\<close> (\<^verbatim>\<open>preload.js\<close> 895-1044) runs again when
  one of its dependencies \<^verbatim>\<open>[isElectron, isConnected, hasAttemptedReconnect]\<close> has
  changed: the cleanup of the previous run, if it had registered a handler, clears the
  pending timeout; then the handler of the new render is registered, or, without the
  bridge, the liveness flag is cleared and nothing is registered. \<open>rerender\<close> is that step,
  applied after each event.
\<close>

definition deps :: "cells \<Rightarrow> bool \<times> bool \<times> bool" where
  "deps c = (isElectron c, isConnected c, hasAttemptedReconnect c)"

definition rerender :: "session \<Rightarrow> session" where
  "rerender s =
     (if deps (snapshot s) = effectDeps s then s
      else
        (let s1 = (case handler s of None \<Rightarrow> s | Some c \<Rightarrow> s \<lparr> deviceResponseTimeout := None \<rparr>)
         in if \<not> isElectron s \<or> \<not> electronAPI s
            then s1 \<lparr> isDeviceResponding := False, handler := None,
                      effectDeps := deps (snapshot s) \<rparr>
            else s1 \<lparr> handler := Some (snapshot s), effectDeps := deps (snapshot s) \<rparr>))"

text \<open>
  An inbound line at time \<open>now\<close>; the clock reaching \<open>now\<close> (the pending liveness timeout
  fires if it is due); the clock reaching \<open>now\<close> for the grace timers of \<^verbatim>\<open>connect\<close>; and
  a call of \<^verbatim>\<open>connect\<close> from the current render.
\<close>

definition onSerialData :: "nat \<Rightarrow> string \<Rightarrow> session \<Rightarrow> session" where
  "onSerialData now data s =
     (case handler s of
        None \<Rightarrow> s
      | Some c \<Rightarrow> rerender (handleSerialData c now data s))"

definition onClock :: "nat \<Rightarrow> attempt list \<Rightarrow> session \<Rightarrow> session" where
  "onClock now as s =
     (case deviceResponseTimeout s of
        None \<Rightarrow> s
      | Some (deadline, c) \<Rightarrow>
          if deadline \<le> now
          then rerender (responseTimeoutCallback c as (s \<lparr> deviceResponseTimeout := None \<rparr>))
          else s)"

definition onGraceClock :: "nat \<Rightarrow> ipc_outcome \<Rightarrow> session \<Rightarrow> session" where
  "onGraceClock now w s =
     (case graceTimers s of
        [] \<Rightarrow> s
      | (deadline, c) # rest \<Rightarrow>
          if deadline \<le> now
          then rerender (connectGraceCallback c w (s \<lparr> graceTimers := rest \<rparr>))
          else s)"

definition onConnect :: "string option \<Rightarrow> jsnum option \<Rightarrow> ipc_outcome \<Rightarrow> nat \<Rightarrow> session \<Rightarrow> session" where
  "onConnect portPath baud res now s = rerender (connect (snapshot s) portPath baud res now s)"



section \<open>Notions used in the statements\<close>

text \<open>
  The spec writes \<^verbatim>\<open><float>\<close> for a numeric field and gives \<^verbatim>\<open>12.50\<close>, \<^verbatim>\<open>-3.20\<close> and
  \<^verbatim>\<open>0.75\<close> as examples. \<open>isFloatText\<close> reads it as that shape: an optional minus sign,
  one or more digits, and optionally a point followed by one or more digits.
\<close>

definition isFloatText :: "string \<Rightarrow> bool" where
  "isFloatText x =
     (let r = (case x of [] \<Rightarrow> [] | ch # t \<Rightarrow> if ch = CHR ''-'' then t else x);
          ip = takeWhile isDigit r;
          r1 = dropWhile isDigit r
      in ip \<noteq> [] \<and> (r1 = [] \<or> (hd r1 = CHR ''.'' \<and> tl r1 \<noteq> [] \<and> list_all isDigit (tl r1))))"



text \<open>How often the transport was asked to open the port.\<close>

fun opens :: "effect list \<Rightarrow> nat" where
  "opens [] = 0"
| "opens (SerialConnect p b # es) = Suc (opens es)"
| "opens (e # es) = opens es"

text \<open>
  The sessions of the examples: the desktop application with port \<^verbatim>\<open>COM3\<close> selected;
  the same after \<^verbatim>\<open>connect\<close> has succeeded at time 0; and after the grace timer has fired
  at 2000 ms with a successful probe.
\<close>

definition desktopSession :: session where
  "desktopSession =
     rerender (initialSession \<lparr> state := initialState \<lparr> selectedPort := ''COM3'' \<rparr>,
                                isElectron := True, electronAPI := True \<rparr>)"

definition openedSession :: session where
  "openedSession = onConnect None None (Resolved ok_result) 0 desktopSession"

definition connectedSession :: session where
  "connectedSession = onGraceClock 2000 (Resolved ok_result) openedSession"

definition failed_result :: ipc_result where
  "failed_result = \<lparr> success = False, err = None \<rparr>"

text \<open>An attempt whose reopen is refused, and one whose reopen succeeds but whose probe fails.\<close>

definition openRefused :: attempt where
  "openRefused =
     \<lparr> disc = Resolved ok_result, conn = Resolved failed_result, probe = Resolved ok_result \<rparr>"

definition probeRefused :: attempt where
  "probeRefused =
     \<lparr> disc = Resolved ok_result, conn = Resolved ok_result, probe = Resolved failed_result \<rparr>"

text \<open>A render with a mode outside the enumeration, and such a configuration of the hook.\<close>

definition turboCells :: cells where
  "turboCells = (snapshot connectedSession) \<lparr> state := initialState \<lparr> mode := ''turbo'' \<rparr> \<rparr>"

definition turboConfig :: HapticConfig where
  "turboConfig =
     \<lparr> h_mode = ''turbo'', h_angle = Fin 0, h_torque = None, h_stiffness = None,
       h_targetAngle = None \<rparr>"

text \<open>The render of the spec's end-to-end scenario: soft endstops, two turns, sticky.\<close>

definition softEndstopCells :: cells where
  "softEndstopCells =
     (snapshot connectedSession)
       \<lparr> state := initialState \<lparr> mode := ''endstops'', endstopMode := ''soft'',
                                 endstopTurns := Fin 2, isSticky := True \<rparr> \<rparr>"

text \<open>The main process before any port was opened.\<close>

definition noPort :: main_process where
  "noPort = \<lparr> serialPort = None \<rparr>"


text \<open>A line that consists of one telemetry field: the key and the field text.\<close>

definition fieldLine :: "string \<Rightarrow> string \<Rightarrow> string" where
  "fieldLine key x = key @ x"



text \<open>
  The connected session after the combined line \<^verbatim>\<open>ANGLE:1,VEL:2,TORQUE:3\<close> has arrived at
  2500 ms: the liveness timeout is pending for 4500 ms.
\<close>

definition silentSession :: session where
  "silentSession = onSerialData 2500 ''ANGLE:1,VEL:2,TORQUE:3'' connectedSession"



section \<open>Basic facts\<close>

lemma snapshot_fields [simp]:
  "state (snapshot s) = state s"
  "isConnected (snapshot s) = isConnected s"
  "isElectron (snapshot s) = isElectron s"
  "hasAttemptedReconnect (snapshot s) = hasAttemptedReconnect s"
  "isReconnecting (snapshot s) = isReconnecting s"
  "reconnectAttempts (snapshot s) = reconnectAttempts s"
  "lastPortPath (snapshot s) = lastPortPath s"
  "lastBaudRate (snapshot s) = lastBaudRate s"
  by (simp_all add: snapshot_def cells.defs)

lemma wire_append [simp]: "wire (xs @ ys) = wire xs @ wire ys"
  by (induction xs rule: wire.induct) simp_all

lemma effects_emit [simp]: "effects (emit e s) = effects s @ [e]"
  by (simp add: emit_def)

section \<open>Endstop angles (C9)\<close>







section \<open>Modes outside the enumeration (C5)\<close>

lemma format_outside:
  "mode config \<notin> set hapticModes \<Longrightarrow> formatTFDCommand config = ''set normal\<newline>''"
  by (simp add: formatTFDCommand_def hapticModes_def)

lemma format_shape:
  "startsWith (formatTFDCommand config) ''set '' \<and> last (formatTFDCommand config) = CHR 0x0A"
  by (simp add: formatTFDCommand_def startsWith_def)

lemma haptic_outside:
  "h_mode hc \<notin> set hapticModes \<Longrightarrow>
     formatHapticCommand toStr hc = ''MODE:'' @ toUpperCase (h_mode hc) @ ''\<newline>''"
  by (simp add: formatHapticCommand_def hapticModes_def)

lemma send_wire_plain:
  "isConnected c \<Longrightarrow> electronAPI s \<Longrightarrow> mode (state c) \<noteq> ''endstops'' \<Longrightarrow>
     wire (effects (sendTFDConfig c w1 w2 s)) = wire (effects s) @ [formatTFDCommand (state c)]"
  by (simp add: sendTFDConfig_def sendFailed_def Let_def split: ipc_outcome.splits)

text \<open>
  C5, as stated, fails: for a mode outside the enumeration the encoder is to fail and
  nothing is to be transmitted. \<^verbatim>\<open>turbo\<close> is outside the enumeration; \<^verbatim>\<open>formatTFDCommand\<close>
  returns the command of the \<^verbatim>\<open>default\<close> branch for it, and \<^verbatim>\<open>sendTFDConfig\<close> on the
  connected session hands that line to the transport.
\<close>

theorem unknown_mode_counterexample:
  "''turbo'' \<notin> set hapticModes
   \<and> formatTFDCommand (initialState \<lparr> mode := ''turbo'' \<rparr>) = ''set normal\<newline>''
   \<and> wire (effects (sendTFDConfig
              ((snapshot connectedSession) \<lparr> state := initialState \<lparr> mode := ''turbo'' \<rparr> \<rparr>)
              (Resolved ok_result) (Resolved ok_result)
              (connectedSession \<lparr> effects := [] \<rparr>)))
       = [''set normal\<newline>'']"
  by code_simp

text \<open>
  C5, amended: for every configuration whose mode is outside the enumeration the encoder
  does not fail but returns the command of its \<^verbatim>\<open>default\<close> branch: \<^verbatim>\<open>formatTFDCommand\<close>
  returns \<^verbatim>\<open>set normal\<close>, which \<^verbatim>\<open>sendTFDConfig\<close> transmits on a connected session, and
  \<^verbatim>\<open>formatHapticCommand\<close> returns \<^verbatim>\<open>MODE:\<close> followed by the mode in upper case; for every
  configuration, inside the enumeration or not, \<^verbatim>\<open>formatTFDCommand\<close> returns a line that
  starts with \<^verbatim>\<open>set\<close> and a space and ends with a newline.
\<close>

theorem unknown_mode_is_sent_as_normal:
  "(mode config \<notin> set hapticModes \<longrightarrow> formatTFDCommand config = ''set normal\<newline>'')
   \<and> (isConnected c \<and> electronAPI s \<and> mode (state c) \<notin> set hapticModes \<longrightarrow>
        wire (effects (sendTFDConfig c w1 w2 s)) = wire (effects s) @ [''set normal\<newline>''])
   \<and> (h_mode hc \<notin> set hapticModes \<longrightarrow>
        formatHapticCommand toStr hc = ''MODE:'' @ toUpperCase (h_mode hc) @ ''\<newline>'')
   \<and> startsWith (formatTFDCommand config) ''set ''
   \<and> last (formatTFDCommand config) = CHR 0x0A"
proof -
  have "wire (effects (sendTFDConfig c w1 w2 s)) = wire (effects s) @ [''set normal\<newline>'']"
    if "isConnected c" "electronAPI s" "mode (state c) \<notin> set hapticModes"
  proof -
    from that(3) have "mode (state c) \<noteq> ''endstops''" by (auto simp: hapticModes_def)
    with that show ?thesis by (simp add: send_wire_plain format_outside)
  qed
  then show ?thesis using format_outside haptic_outside format_shape by blast
qed

theorem unknown_mode_is_sent_as_normal_witness:
  "mode (initialState \<lparr> mode := ''turbo'' \<rparr>) \<notin> set hapticModes
   \<and> formatTFDCommand (initialState \<lparr> mode := ''turbo'' \<rparr>) = ''set normal\<newline>''
   \<and> isConnected turboCells \<and> electronAPI connectedSession
   \<and> wire (effects (sendTFDConfig turboCells (Resolved ok_result) (Resolved ok_result)
                       connectedSession))
        = wire (effects connectedSession) @ [''set normal\<newline>'']
   \<and> formatHapticCommand toFixed1 turboConfig = ''MODE:TURBO\<newline>''"
proof -
  have a: "mode (initialState \<lparr> mode := ''turbo'' \<rparr>) \<notin> set hapticModes" by code_simp
  have b: "isConnected turboCells" by code_simp
  have c: "electronAPI connectedSession" by code_simp
  have d: "mode (state turboCells) \<notin> set hapticModes" by code_simp
  have e: "h_mode turboConfig \<notin> set hapticModes" by code_simp
  have f: "toUpperCase (h_mode turboConfig) = ''TURBO''" by code_simp
  show ?thesis
    using unknown_mode_is_sent_as_normal
            [of "initialState \<lparr> mode := ''turbo'' \<rparr>" turboCells connectedSession
                "Resolved ok_result" "Resolved ok_result" turboConfig toFixed1]
          a b c d e f
    by simp
qed

section \<open>Endstops and the sticky line (C6)\<close>

lemma fixed1_two: "fixed1 2 = ''2.0''"
  by code_simp

lemma send_wire_endstops:
  "isConnected c \<Longrightarrow> electronAPI s \<Longrightarrow> mode (state c) = ''endstops'' \<Longrightarrow> success r \<Longrightarrow>
     wire (effects (sendTFDConfig c (Resolved r) w2 s))
       = wire (effects s)
         @ [formatTFDCommand (state c),
            ''set sticky:'' @ (if isSticky (state c) then ''on'' else ''off'') @ ''\<newline>'']"
  by (simp add: sendTFDConfig_def sendFailed_def Let_def split: ipc_outcome.splits)

lemma format_soft_two:
  "mode config = ''endstops'' \<Longrightarrow> endstopMode config = ''soft'' \<Longrightarrow> endstopTurns config = Fin 2 \<Longrightarrow>
     formatTFDCommand config = ''set endstops-ultra:2.0\<newline>''"
  by (simp add: formatTFDCommand_def fixed1_two)

text \<open>
  C6: on a connected session whose first write is acknowledged, \<^verbatim>\<open>sendTFDConfig\<close> with
  mode \<^verbatim>\<open>endstops\<close> hands exactly two lines to the transport, in this order: the endstops
  command of the configuration and then \<^verbatim>\<open>set sticky:on\<close> or \<^verbatim>\<open>set sticky:off\<close> according
  to \<^verbatim>\<open>isSticky\<close>; with endstop mode \<^verbatim>\<open>soft\<close>, two turns and \<^verbatim>\<open>isSticky\<close> set, the lines are
  \<^verbatim>\<open>set endstops-ultra:2.0\<close> and \<^verbatim>\<open>set sticky:on\<close>, each ended by a newline.
\<close>

theorem endstops_command_then_sticky:
  assumes "isConnected c" and "electronAPI s" and "mode (state c) = ''endstops''" and "success r"
  shows "wire (effects (sendTFDConfig c (Resolved r) w2 s))
           = wire (effects s)
             @ [formatTFDCommand (state c),
                ''set sticky:'' @ (if isSticky (state c) then ''on'' else ''off'') @ ''\<newline>'']
         \<and> (endstopMode (state c) = ''soft'' \<and> endstopTurns (state c) = Fin 2 \<and> isSticky (state c)
              \<longrightarrow> wire (effects (sendTFDConfig c (Resolved r) w2 s))
                    = wire (effects s) @ [''set endstops-ultra:2.0\<newline>'', ''set sticky:on\<newline>''])"
  using assms by (simp add: send_wire_endstops format_soft_two)

theorem endstops_command_then_sticky_witness:
  "isConnected softEndstopCells \<and> electronAPI connectedSession
   \<and> mode (state softEndstopCells) = ''endstops'' \<and> success ok_result
   \<and> endstopMode (state softEndstopCells) = ''soft''
   \<and> endstopTurns (state softEndstopCells) = Fin 2 \<and> isSticky (state softEndstopCells)
   \<and> wire (effects (sendTFDConfig softEndstopCells (Resolved ok_result) (Resolved ok_result)
                       connectedSession))
       = wire (effects connectedSession) @ [''set endstops-ultra:2.0\<newline>'', ''set sticky:on\<newline>'']"
proof -
  have a: "isConnected softEndstopCells" by code_simp
  have b: "electronAPI connectedSession" by code_simp
  have c: "mode (state softEndstopCells) = ''endstops''" by code_simp
  have d: "success ok_result" by code_simp
  have e: "endstopMode (state softEndstopCells) = ''soft''" by code_simp
  have f: "endstopTurns (state softEndstopCells) = Fin 2" by code_simp
  have g: "isSticky (state softEndstopCells)" by code_simp
  show ?thesis
    using endstops_command_then_sticky [OF a b c d, of "Resolved ok_result"] a b c d e f g
    by blast
qed

section \<open>The mock write (C10)\<close>

lemma write_closed: "\<not> portIsOpen g \<Longrightarrow> serial_write data writeError g = ok_result"
  by (simp add: serial_write_def)

lemma probe_is_write_success:
  "isElectron c \<Longrightarrow> electronAPI s \<Longrightarrow> fst (checkDeviceResponsiveness c (Resolved r) s) = success r"
  by (simp add: checkDeviceResponsiveness_def Let_def)

lemma probe_true:
  "isElectron c \<Longrightarrow> electronAPI s \<Longrightarrow> success r \<Longrightarrow>
     isDeviceResponding (connectGraceCallback c (Resolved r) s)"
  by (simp add: connectGraceCallback_def checkDeviceResponsiveness_def Let_def emit_def)

text \<open>
  C10: when no port is open, the \<^verbatim>\<open>serial-write\<close> handler answers \<^verbatim>\<open>success: true\<close>
  whatever the hardware would report; when the \<^verbatim>\<open>serialport\<close> module is unavailable,
  \<^verbatim>\<open>serial-connect\<close> answers success and opens nothing; the probe's verdict is the
  \<^verbatim>\<open>success\<close> field of the write; so with no port open the probe says that the device
  responds and the grace callback of \<^verbatim>\<open>connect\<close> marks it as responding.
\<close>

theorem closed_port_write_succeeds:
  "(\<not> portIsOpen g \<longrightarrow> success (serial_write data writeError g))
   \<and> (\<not> moduleAvailable \<longrightarrow>
        serial_connect portPath moduleAvailable openError g = (ok_result, g))
   \<and> (isElectron c \<and> electronAPI s \<longrightarrow>
        fst (checkDeviceResponsiveness c (Resolved r) s) = success r)
   \<and> (\<not> portIsOpen g \<and> isElectron c \<and> electronAPI s \<longrightarrow>
        fst (checkDeviceResponsiveness c (Resolved (serial_write ''get all\<newline>'' writeError g)) s)
        \<and> isDeviceResponding
            (connectGraceCallback c (Resolved (serial_write ''get all\<newline>'' writeError g)) s))"
  by (simp add: write_closed probe_true probe_is_write_success ok_result_def serial_connect_def)

theorem closed_port_write_succeeds_witness:
  "\<not> portIsOpen noPort
   \<and> success (serial_write ''get all\<newline>'' (Some ''port closed'') noPort)
   \<and> serial_connect ''COM3'' False None noPort = (ok_result, noPort)
   \<and> isElectron (snapshot desktopSession) \<and> electronAPI openedSession
   \<and> isDeviceResponding
       (connectGraceCallback (snapshot desktopSession)
          (Resolved (serial_write ''get all\<newline>'' (Some ''port closed'') noPort)) openedSession)"
proof -
  have a: "\<not> portIsOpen noPort" by code_simp
  have b: "isElectron (snapshot desktopSession)" by code_simp
  have c: "electronAPI openedSession" by code_simp
  show ?thesis
    using closed_port_write_succeeds
            [of noPort "''get all\<newline>''" "Some ''port closed''" False "''COM3''" None
                "snapshot desktopSession" openedSession] a b c
    by simp
qed

section \<open>Rendering and connecting (C3)\<close>

lemma deps_snapshot_upd [simp]:
  "deps (snapshot (s \<lparr> isDeviceResponding := a \<rparr>)) = deps (snapshot s)"
  "deps (snapshot (s \<lparr> error := b \<rparr>)) = deps (snapshot s)"
  "deps (snapshot (s \<lparr> isInGracePeriod := d \<rparr>)) = deps (snapshot s)"
  "deps (snapshot (s \<lparr> handler := h \<rparr>)) = deps (snapshot s)"
  "deps (snapshot (s \<lparr> effectDeps := e \<rparr>)) = deps (snapshot s)"
  "deps (snapshot (s \<lparr> deviceResponseTimeout := t \<rparr>)) = deps (snapshot s)"
  "deps (snapshot (s \<lparr> graceTimers := g \<rparr>)) = deps (snapshot s)"
  "deps (snapshot (s \<lparr> effects := f \<rparr>)) = deps (snapshot s)"
  "deps (snapshot (s \<lparr> state := st \<rparr>)) = deps (snapshot s)"
  "deps (snapshot (s \<lparr> pendingAngleRequest := p \<rparr>)) = deps (snapshot s)"
  "deps (snapshot (s \<lparr> pendingVelocityRequest := p \<rparr>)) = deps (snapshot s)"
  by (simp_all add: deps_def)



lemma rerender_keeps [simp]:
  "error (rerender s) = error s"
  "isConnected (rerender s) = isConnected s"
  "graceTimers (rerender s) = graceTimers s"
  "effects (rerender s) = effects s"
  "electronAPI (rerender s) = electronAPI s"
  "isElectron (rerender s) = isElectron s"
  "hasAttemptedReconnect (rerender s) = hasAttemptedReconnect s"
  "state (rerender s) = state s"
  by (simp_all add: rerender_def Let_def split: option.splits)










section \<open>Facts about the string functions\<close>

lemma inClass_plain: "inClass ch \<Longrightarrow> \<not> isWhiteSpace ch \<and> ch \<noteq> CHR '',''"
  by (auto simp: inClass_def isDigit_def isWhiteSpace_def)

lemma isDigit_inClass: "isDigit ch \<Longrightarrow> inClass ch"
  by (simp add: inClass_def)

lemma isDigit_not_special:
  "isDigit ch \<Longrightarrow> ch \<noteq> CHR ''-'' \<and> ch \<noteq> CHR ''+'' \<and> ch \<noteq> CHR ''I'' \<and> \<not> isWhiteSpace ch"
  by (auto simp: isDigit_def isWhiteSpace_def)

lemma digits_then_fraction_inClass:
  assumes "r1 = [] \<or> (hd r1 = CHR ''.'' \<and> tl r1 \<noteq> [] \<and> list_all isDigit (tl r1))"
  shows "\<forall>ch\<in>set r1. inClass ch"
proof (cases r1)
  case Nil
  then show ?thesis by simp
next
  case (Cons y ys)
  with assms show ?thesis
    by (auto simp: inClass_def list_all_iff)
qed

lemma isFloatText_inClass:
  assumes "isFloatText x"
  shows "x \<noteq> []" and "\<forall>ch\<in>set x. inClass ch"
proof -
  define r where "r = (case x of [] \<Rightarrow> [] | ch # t \<Rightarrow> if ch = CHR ''-'' then t else x)"
  from assms have ip: "takeWhile isDigit r \<noteq> []"
    and fr: "dropWhile isDigit r = []
       \<or> (hd (dropWhile isDigit r) = CHR ''.'' \<and> tl (dropWhile isDigit r) \<noteq> []
           \<and> list_all isDigit (tl (dropWhile isDigit r)))"
    by (simp_all add: isFloatText_def Let_def r_def)
  from ip have "r \<noteq> []" by auto
  then show "x \<noteq> []" by (auto simp: r_def)
  have "\<forall>ch\<in>set (takeWhile isDigit r). inClass ch"
    by (auto dest: set_takeWhileD simp: isDigit_inClass)
  moreover have "\<forall>ch\<in>set (dropWhile isDigit r). inClass ch"
    using fr by (rule digits_then_fraction_inClass)
  moreover have "set r = set (takeWhile isDigit r) \<union> set (dropWhile isDigit r)"
    by (metis set_append takeWhile_dropWhile_id)
  ultimately have r: "\<forall>ch\<in>set r. inClass ch" by blast
  show "\<forall>ch\<in>set x. inClass ch"
  proof (cases x)
    case Nil
    then show ?thesis by simp
  next
    case (Cons ch t)
    then show ?thesis using r by (auto simp: r_def inClass_def split: if_splits)
  qed
qed

lemma startsWith_digit: "r \<noteq> [] \<Longrightarrow> isDigit (hd r) \<Longrightarrow> \<not> startsWith r ''Infinity''"
  by (cases r) (auto simp: startsWith_def isDigit_def)

lemma parseFloat_digits:
  assumes "takeWhile isDigit r \<noteq> []"
  shows "parseFloat r \<noteq> NaN" and "parseFloat (CHR ''-'' # r) \<noteq> NaN"
proof -
  from assms have r: "r \<noteq> []" "isDigit (hd r)"
    by (auto simp: takeWhile_eq_Nil_iff)
  then have nw: "\<not> isWhiteSpace (hd r)" "hd r \<noteq> CHR ''-''" "hd r \<noteq> CHR ''+''"
    using isDigit_not_special by blast+
  have d: "dropWhile isWhiteSpace r = r"
    using r nw by (simp add: dropWhile_eq_self_iff)
  have i: "\<not> startsWith r ''Infinity''" using r by (rule startsWith_digit)
  show "parseFloat r \<noteq> NaN"
    using assms r nw i by (simp add: parseFloat_def d Let_def)
  have "\<not> isWhiteSpace (CHR ''-'')" by (simp add: isWhiteSpace_def)
  then show "parseFloat (CHR ''-'' # r) \<noteq> NaN"
    using assms r i by (simp add: parseFloat_def Let_def)
qed

lemma isFloatText_parses:
  assumes "isFloatText x"
  shows "parseFloat x \<noteq> NaN"
proof (cases x)
  case Nil
  with assms show ?thesis by (simp add: isFloatText_def)
next
  case (Cons ch t)
  show ?thesis
  proof (cases "ch = CHR ''-''")
    case True
    with assms Cons have "takeWhile isDigit t \<noteq> []" by (simp add: isFloatText_def Let_def)
    then show ?thesis using Cons True parseFloat_digits(2) by simp
  next
    case False
    with assms Cons have "takeWhile isDigit x \<noteq> []" by (simp add: isFloatText_def Let_def)
    then show ?thesis by (rule parseFloat_digits(1))
  qed
qed

lemma trim_id:
  assumes "s \<noteq> []" and "\<not> isWhiteSpace (hd s)" and "\<not> isWhiteSpace (last s)"
  shows "trim s = s"
proof -
  have a: "dropWhile isWhiteSpace s = s"
    using assms(2) by (simp add: dropWhile_eq_self_iff)
  have "hd (rev s) = last s" using assms(1) by (simp add: hd_rev)
  then have b: "dropWhile isWhiteSpace (rev s) = rev s"
    using assms(3) by (simp add: dropWhile_eq_self_iff)
  show ?thesis by (simp add: trim_def a b)
qed





lemma includes_hd: "includes_str s p \<Longrightarrow> p \<noteq> [] \<Longrightarrow> hd p \<in> set s"
proof (induction s)
  case Nil
  then show ?case by simp
next
  case (Cons x xs)
  show ?case
  proof (cases "startsWith (x # xs) p")
    case True
    then have "take (length p) (x # xs) = p" by (simp add: startsWith_def)
    with Cons.prems(2) have "hd p = x" by (cases p) auto
    then show ?thesis by simp
  next
    case False
    with Cons show ?thesis by auto
  qed
qed


section \<open>Combined telemetry lines (C7)\<close>

lemma updateState_angle:
  "updateState (no_updates \<lparr> u_currentAngle := Some v \<rparr>) st = st \<lparr> currentAngle := v \<rparr>"
  by (simp add: updateState_def spread_def orElse_def no_updates_def)

lemma updateState_velocity:
  "updateState (no_updates \<lparr> u_currentVelocity := Some v \<rparr>) st = st \<lparr> currentVelocity := v \<rparr>"
  by (simp add: updateState_def spread_def orElse_def no_updates_def)

lemma updateState_torque:
  "updateState (no_updates \<lparr> u_currentTorque := Some v \<rparr>) st = st \<lparr> currentTorque := v \<rparr>"
  by (simp add: updateState_def spread_def orElse_def no_updates_def)







section \<open>Single-field telemetry lines (C4)\<close>

lemma fieldLine_trim:
  assumes "isFloatText x" and "key \<noteq> []" and "\<not> isWhiteSpace (hd key)"
  shows "trim (fieldLine key x) = fieldLine key x"
proof -
  note cx = isFloatText_inClass [OF assms(1)]
  have "last (fieldLine key x) = last x" using cx(1) by (simp add: fieldLine_def)
  moreover have "\<not> isWhiteSpace (last x)" using cx inClass_plain last_in_set by blast
  moreover have "hd (fieldLine key x) = hd key" using assms(2) by (simp add: fieldLine_def)
  moreover have "fieldLine key x \<noteq> []" using assms(2) by (simp add: fieldLine_def)
  ultimately show ?thesis using assms(3) by (simp add: trim_id)
qed

lemma fieldLine_parts:
  "startsWith (fieldLine key x) key" "substring (fieldLine key x) (length key) = x"
  by (simp_all add: fieldLine_def startsWith_def substring_def)

lemma fieldLine_other_keys:
  "\<not> startsWith (fieldLine ''VEL:'' x) ''ANGLE:''"
  "\<not> startsWith (fieldLine ''TORQUE:'' x) ''ANGLE:''"
  "\<not> startsWith (fieldLine ''TORQUE:'' x) ''VEL:''"
  by (simp_all add: fieldLine_def startsWith_def)

lemma mini_single_field:
  assumes "isFloatText x"
  shows "state (handleSerialData_mini cl now (fieldLine ''ANGLE:'' x) s)
           = (state s) \<lparr> currentAngle := clampAngle_mini cl (parseFloat x) \<rparr>"
    and "state (handleSerialData_mini cl now (fieldLine ''VEL:'' x) s)
           = (state s) \<lparr> currentVelocity := parseFloat x \<rparr>"
    and "state (handleSerialData_mini cl now (fieldLine ''TORQUE:'' x) s)
           = (state s) \<lparr> currentTorque := parseFloat x \<rparr>"
proof -
  have w: "\<not> isWhiteSpace (hd ''ANGLE:'')" "\<not> isWhiteSpace (hd ''VEL:'')"
    "\<not> isWhiteSpace (hd ''TORQUE:'')" by (simp_all add: isWhiteSpace_def)
  note p = isFloatText_parses [OF assms]
  have ta: "trim (fieldLine ''ANGLE:'' x) = fieldLine ''ANGLE:'' x"
    by (rule fieldLine_trim [OF assms _ w(1)]) simp
  have tv: "trim (fieldLine ''VEL:'' x) = fieldLine ''VEL:'' x"
    by (rule fieldLine_trim [OF assms _ w(2)]) simp
  have tt: "trim (fieldLine ''TORQUE:'' x) = fieldLine ''TORQUE:'' x"
    by (rule fieldLine_trim [OF assms _ w(3)]) simp
  show "state (handleSerialData_mini cl now (fieldLine ''ANGLE:'' x) s)
           = (state s) \<lparr> currentAngle := clampAngle_mini cl (parseFloat x) \<rparr>"
    unfolding handleSerialData_mini_def ta Let_def
    using p by (simp only: fieldLine_parts) (simp add: isNaN_def updateState_angle)
  show "state (handleSerialData_mini cl now (fieldLine ''VEL:'' x) s)
           = (state s) \<lparr> currentVelocity := parseFloat x \<rparr>"
    unfolding handleSerialData_mini_def tv Let_def
    using p by (simp only: fieldLine_parts fieldLine_other_keys) (simp add: isNaN_def updateState_velocity)
  show "state (handleSerialData_mini cl now (fieldLine ''TORQUE:'' x) s)
           = (state s) \<lparr> currentTorque := parseFloat x \<rparr>"
    unfolding handleSerialData_mini_def tt Let_def
    using p by (simp only: fieldLine_parts fieldLine_other_keys) (simp add: isNaN_def updateState_torque)
qed

lemma single_field_not_combined:
  assumes "isFloatText x"
  shows "\<not> isSensorData (fieldLine ''ANGLE:'' x)" "\<not> isSensorData (fieldLine ''VEL:'' x)"
    "\<not> isSensorData (fieldLine ''TORQUE:'' x)"
    "\<not> isCommandResponse (fieldLine ''ANGLE:'' x)" "\<not> isCommandResponse (fieldLine ''VEL:'' x)"
    "\<not> isCommandResponse (fieldLine ''TORQUE:'' x)"
proof -
  note cx = isFloatText_inClass [OF assms]
  have "\<not> inClass (CHR ''V'')" by (simp add: inClass_def isDigit_def)
  then have "CHR ''V'' \<notin> set (fieldLine ''ANGLE:'' x)" using cx(2) by (auto simp: fieldLine_def)
  then have "\<not> includes_str (fieldLine ''ANGLE:'' x) ''VEL:''"
    using includes_hd [of "fieldLine ''ANGLE:'' x" "''VEL:''"] by auto
  then show "\<not> isSensorData (fieldLine ''ANGLE:'' x)" by (simp add: isSensorData_def)
  show "\<not> isSensorData (fieldLine ''VEL:'' x)" "\<not> isSensorData (fieldLine ''TORQUE:'' x)"
    by (simp_all add: isSensorData_def fieldLine_other_keys)
  show "\<not> isCommandResponse (fieldLine ''ANGLE:'' x)" "\<not> isCommandResponse (fieldLine ''VEL:'' x)"
    "\<not> isCommandResponse (fieldLine ''TORQUE:'' x)"
    by (simp_all add: isCommandResponse_def fieldLine_def)
qed

lemma preload_single_field:
  assumes "isFloatText x" and "key \<in> set [''ANGLE:'', ''VEL:'', ''TORQUE:'']"
  shows "handleSerialData cl now (fieldLine key x) s = s"
proof -
  have w: "key \<noteq> []" "\<not> isWhiteSpace (hd key)" using assms(2) by (auto simp: isWhiteSpace_def)
  have t: "trim (fieldLine key x) = fieldLine key x" by (rule fieldLine_trim [OF assms(1) w])
  have "\<not> isSensorData (fieldLine key x)" "\<not> isCommandResponse (fieldLine key x)"
    using assms(2) single_field_not_combined [OF assms(1)] by auto
  then show ?thesis by (simp add: handleSerialData_def t)
qed

text \<open>
  C4, as stated, fails for the handler of \<^verbatim>\<open>preload.js\<close>: the line \<^verbatim>\<open>VEL:1.5\<close> consists of
  one telemetry field, and after it the current velocity is still 0.
\<close>

theorem single_field_line_discarded_counterexample:
  "isFloatText ''1.5'' \<and> fieldLine ''VEL:'' ''1.5'' = ''VEL:1.5''
   \<and> parseFloat ''1.5'' = Fin (3 / 2)
   \<and> currentVelocity (state connectedSession) = Fin 0
   \<and> currentVelocity
        (state (handleSerialData (snapshot connectedSession) 2500 ''VEL:1.5'' connectedSession))
       = Fin 0"
  by code_simp

text \<open>
  C4, amended: for a field text \<open>x\<close> of the shape \<^verbatim>\<open><float>\<close>, the handler of
  \<^verbatim>\<open>mini-tfd-control.tsx\<close> on the line \<^verbatim>\<open>ANGLE:x\<close>, \<^verbatim>\<open>VEL:x\<close> or \<^verbatim>\<open>TORQUE:x\<close> sets that one
  field of the state to the parsed number (the angle after \<^verbatim>\<open>clampAngle\<close>) and leaves every
  other field as it was; the handler of \<^verbatim>\<open>preload.js\<close>, which accepts the combined format
  only, leaves the whole session unchanged on such a line.
\<close>

theorem single_field_lines:
  "isFloatText x \<longrightarrow>
     parseFloat x \<noteq> NaN
     \<and> state (handleSerialData_mini cl now (fieldLine ''ANGLE:'' x) s)
         = (state s) \<lparr> currentAngle := clampAngle_mini cl (parseFloat x) \<rparr>
     \<and> state (handleSerialData_mini cl now (fieldLine ''VEL:'' x) s)
         = (state s) \<lparr> currentVelocity := parseFloat x \<rparr>
     \<and> state (handleSerialData_mini cl now (fieldLine ''TORQUE:'' x) s)
         = (state s) \<lparr> currentTorque := parseFloat x \<rparr>
     \<and> (\<forall>key \<in> set [''ANGLE:'', ''VEL:'', ''TORQUE:''].
           handleSerialData cl now (fieldLine key x) s = s)"
proof (intro impI conjI ballI)
  assume x: "isFloatText x"
  show "parseFloat x \<noteq> NaN" using x by (rule isFloatText_parses)
  show "state (handleSerialData_mini cl now (fieldLine ''ANGLE:'' x) s)
         = (state s) \<lparr> currentAngle := clampAngle_mini cl (parseFloat x) \<rparr>"
    using x by (rule mini_single_field(1))
  show "state (handleSerialData_mini cl now (fieldLine ''VEL:'' x) s)
         = (state s) \<lparr> currentVelocity := parseFloat x \<rparr>"
    using x by (rule mini_single_field(2))
  show "state (handleSerialData_mini cl now (fieldLine ''TORQUE:'' x) s)
         = (state s) \<lparr> currentTorque := parseFloat x \<rparr>"
    using x by (rule mini_single_field(3))
  show "handleSerialData cl now (fieldLine key x) s = s"
    if "key \<in> set [''ANGLE:'', ''VEL:'', ''TORQUE:'']" for key
    using x that by (rule preload_single_field)
qed

theorem single_field_lines_witness:
  "isFloatText ''1.5''
   \<and> fieldLine ''VEL:'' ''1.5'' = ''VEL:1.5''
   \<and> state (handleSerialData_mini (snapshot connectedSession) 2500 ''VEL:1.5'' connectedSession)
       = (state connectedSession) \<lparr> currentVelocity := Fin (3 / 2) \<rparr>
   \<and> handleSerialData (snapshot connectedSession) 2500 ''VEL:1.5'' connectedSession
       = connectedSession"
proof -
  have t: "isFloatText ''1.5''" by code_simp
  have p: "parseFloat ''1.5'' = Fin (3 / 2)" by code_simp
  have l: "fieldLine ''VEL:'' ''1.5'' = ''VEL:1.5''" by (simp add: fieldLine_def)
  have k: "''VEL:'' \<in> set [''ANGLE:'', ''VEL:'', ''TORQUE:'']" by simp
  note g = single_field_lines [of "''1.5''" "snapshot connectedSession" 2500 connectedSession,
      THEN mp, OF t]
  note g3 = g [THEN conjunct2, THEN conjunct2, THEN conjunct1]
  note g5 = g [THEN conjunct2, THEN conjunct2, THEN conjunct2, THEN conjunct2]
  have a: "state (handleSerialData_mini (snapshot connectedSession) 2500 ''VEL:1.5'' connectedSession)
       = (state connectedSession) \<lparr> currentVelocity := Fin (3 / 2) \<rparr>"
    using g3 unfolding l p .
  have b: "handleSerialData (snapshot connectedSession) 2500 ''VEL:1.5'' connectedSession
       = connectedSession"
    using g5 [rule_format, OF k] unfolding l .
  show ?thesis using t l a b by (intro conjI)
qed

section \<open>Malformed lines (C8)\<close>















section \<open>Reconnection attempts (C2)\<close>

lemma opens_append [simp]: "opens (xs @ ys) = opens xs + opens ys"
  by (induction xs rule: opens.induct) simp_all

lemma reconnectFinally_fields [simp]:
  "effects (reconnectFinally s) = effects s"
  "reconnectAttempts (reconnectFinally s) = reconnectAttempts s"
  "error (reconnectFinally s) = error s"
  "electronAPI (reconnectFinally s) = electronAPI s"
  by (simp_all add: reconnectFinally_def)

lemma refused_attempt:
  assumes "\<not> isReconnecting c" and "reconnectAttempts c = 0" and "lastPortPath c \<noteq> []"
    and "isElectron c" and "electronAPI s"
  shows "handleReconnection c (openRefused # as) s
           = reconnectFinally
               (handleReconnection c as
                  (reconnectCaught
                     (emit (SerialConnect (lastPortPath c) (lastBaudRate c))
                        (emit (Wait 1000) (emit SerialDisconnect (s \<lparr> isReconnecting := True \<rparr>))))))"
  using assms
  by (simp add: handleReconnection.simps(2) openRefused_def failed_result_def ok_result_def Let_def)

lemma refused_attempts_all_made:
  assumes "\<not> isReconnecting c" and "reconnectAttempts c = 0" and "lastPortPath c \<noteq> []"
    and "isElectron c" and "electronAPI s"
  shows "opens (effects (handleReconnection c (replicate n openRefused) s)) = opens (effects s) + n
         \<and> reconnectAttempts (handleReconnection c (replicate n openRefused) s)
             = reconnectAttempts s + n
         \<and> error (handleReconnection c (replicate n openRefused) s) = error s"
  using assms(5)
proof (induction n arbitrary: s)
  case 0
  then show ?case using assms(1-4) by (simp add: handleReconnection.simps(1) emit_def)
next
  case (Suc n)
  let ?s4 = "reconnectCaught
               (emit (SerialConnect (lastPortPath c) (lastBaudRate c))
                  (emit (Wait 1000) (emit SerialDisconnect (s \<lparr> isReconnecting := True \<rparr>))))"
  have e: "electronAPI ?s4" using Suc.prems by (simp add: reconnectCaught_def emit_def)
  have f: "opens (effects ?s4) = opens (effects s) + 1"
    "reconnectAttempts ?s4 = reconnectAttempts s + 1" "error ?s4 = error s"
    by (simp_all add: reconnectCaught_def emit_def)
  show ?case
    using Suc.IH [OF e] f
    by (simp add: refused_attempt [OF assms(1-4) Suc.prems])
qed

text \<open>
  C2 at the failing input. The session is connected and a combined line has armed the
  liveness timeout; it fires at 4500 ms and starts the reconnection with the handler's
  closure, in which \<^verbatim>\<open>reconnectAttempts\<close> is 0. The transport refuses four reopens in a
  row: all four are attempted (five opens in all with the first \<^verbatim>\<open>connect\<close>), the counter
  cell is at 4, the error is still the one of the timeout and not the terminal one, and
  the last effect is the disconnect that begins a fifth attempt.
\<close>

theorem reconnection_retries_past_three:
  "map_option fst (deviceResponseTimeout silentSession) = Some 4500
   \<and> opens (effects silentSession) = 1
   \<and> opens (effects (onClock 4500 [openRefused, openRefused, openRefused, openRefused]
                      silentSession)) = 5
   \<and> reconnectAttempts (onClock 4500 [openRefused, openRefused, openRefused, openRefused]
                          silentSession) = 4
   \<and> error (onClock 4500 [openRefused, openRefused, openRefused, openRefused] silentSession)
       = Some ''Device stopped responding.''
   \<and> last (effects (onClock 4500 [openRefused, openRefused, openRefused, openRefused]
                      silentSession)) = SerialDisconnect"
  by code_simp

section \<open>Liveness timeout and the single reconnection (C1)\<close>

lemma count_calls_emit [simp]:
  "count_list (effects (emit e s)) CallHandleReconnection
     = count_list (effects s) CallHandleReconnection + (if e = CallHandleReconnection then 1 else 0)"
  by (simp add: emit_def)



















end
